theory Spec2Isabelle
  imports Main "HOL-Library.Word"
begin

section \<open>The v3 copy-on-write writer (libsnapshot, writer\_v3.cpp)\<close>

text \<open>
  A shallow embedding of \<^verbatim>\<open>CowWriterV3\<close>. The writer object is a record that every member
  function takes and returns; a member function that returns \<^verbatim>\<open>bool\<close> returns the pair of
  that value and the new object. A fatal \<^verbatim>\<open>CHECK\<close> and the division by a zero block size
  end the process: such a call returns \<open>None\<close>.
\<close>

subsection \<open>Machine integers and the on-disk records\<close>

type_synonym u8 = "8 word"
type_synonym u16 = "16 word"
type_synonym u32 = "32 word"
type_synonym u64 = "64 word"

datatype CowCompressionAlgorithm =
  kCowCompressNone | kCowCompressGz | kCowCompressBrotli | kCowCompressLz4 | kCowCompressZstd

datatype CowOperationType = kCowCopyOp | kCowReplaceOp | kCowZeroOp | kCowXorOp

text \<open>
  \<^verbatim>\<open>CowOperationV3\<close>: the values given to \<^verbatim>\<open>set_type\<close>, \<^verbatim>\<open>new_block\<close>, \<^verbatim>\<open>set_source\<close> and
  \<^verbatim>\<open>data_length\<close>. A value-initialised record (an element of \<^verbatim>\<open>std::vector<CowOperationV3>
  ops(n)\<close>, or \<^verbatim>\<open>CowOperation op{}\<close>) has every numeric field zero; the writer sets the type of
  every record it builds. The struct is declared in cow\_format.h, outside writer\_v3.cpp:
  its fields are taken wide enough for the values the writer stores.
\<close>

record CowOperationV3 =
  op_type :: CowOperationType
  new_block :: u64
  source :: u64
  data_length :: u64

record ResumePoint =
  label :: u64
  op_index :: u64

text \<open>
  \<^verbatim>\<open>CowHeaderV3\<close>, with the prefix and the v2 header it extends flattened into one record.
  The struct is declared in cow\_format.h, outside writer\_v3.cpp: the counters to which the
  writer adds \<^verbatim>\<open>size_t\<close> values, and the sizes it adds to the 64-bit payload cursor, are
  taken as 64-bit, the block size and the resume-point counters as 32-bit, and the sizes of
  the prefix as 16-bit.
\<close>

record CowHeaderV3 =
  magic :: u64
  major_version :: u16
  minor_version :: u16
  header_size :: u16
  footer_size :: u16
  op_size :: u16
  block_size :: u32
  num_merge_ops :: u64
  cluster_ops :: u32
  buffer_size :: u64
  sequence_data_count :: u64
  resume_point_count :: u32
  resume_point_max :: u32
  op_count :: u64
  op_count_max :: u64
  compression_algorithm :: CowCompressionAlgorithm

text \<open>
  The constants and struct sizes that the writer takes from cow\_format.h. They are declared
  outside writer\_v3.cpp, so they are a parameter of the model.
\<close>

record cow_format =
  kCowMagicNumber :: u64
  sizeof_CowHeaderV3 :: nat
  sizeof_CowOperationV3 :: nat
  sizeof_ResumePoint :: nat
  kNumResumePoints :: u32
  BUFFER_REGION_DEFAULT_SIZE :: u64

text \<open>\<^verbatim>\<open>CowOptions\<close>: the fields the writer reads.\<close>

record CowOptions =
  opt_block_size :: u32
  opt_num_merge_ops :: u64
  scratch_space :: bool
  compression :: string
  opt_num_compress_threads :: int
  opt_op_count_max :: u64

record CowCompression =
  algorithm :: CowCompressionAlgorithm
  compression_level :: u32

subsection \<open>The file\<close>

text \<open>
  The file descriptor is modelled by what the writer asked of it: the log of the requests
  that completed, oldest first, and a script of the outcomes of the requests to come (one
  boolean per \<^verbatim>\<open>lseek\<close>, \<^verbatim>\<open>WriteFully\<close>, \<^verbatim>\<open>WriteFullyAtOffset\<close> or \<^verbatim>\<open>Sync\<close>; when the
  script is exhausted every request succeeds). A request that fails leaves no entry.
\<close>

datatype io_request =
  Seek u64
  | WriteHeaderPlaceholder CowHeaderV3
  | WriteScratch u64
  | WriteResumeBuffer u64 "ResumePoint list"
  | WriteSequenceBuffer u64 "u32 list"
  | WriteOps u64 "CowOperationV3 list"
  | WriteData u64 "u8 list"
  | WriteHeader CowHeaderV3 u16
  | SyncFile

record cow_fd =
  completed :: "io_request list"
  outcomes :: "bool list"

definition request :: "io_request \<Rightarrow> cow_fd \<Rightarrow> bool \<times> cow_fd" where
  "request r f =
     (case outcomes f of
        [] \<Rightarrow> (True, f\<lparr>completed := completed f @ [r]\<rparr>)
      | ok # rest \<Rightarrow>
          (ok, f\<lparr>completed := (if ok then completed f @ [r] else completed f),
                 outcomes := rest\<rparr>))"

subsection \<open>The writer object\<close>

text \<open>
  The members of \<^verbatim>\<open>CowWriterV3\<close> and of its base class that the functions below read or
  write. \<open>estimating\<close> is what \<^verbatim>\<open>IsEstimating()\<close> of the base class returns; \<open>compressor\<close> is
  \<^verbatim>\<open>compressor_\<close>, \<open>None\<close> for the null pointer, and otherwise the function
  \<^verbatim>\<open>Compress(data, block_size)\<close> from a block to its compressed bytes.
\<close>

record CowWriterV3 =
  options :: CowOptions
  fd :: cow_fd
  estimating :: bool
  header :: CowHeaderV3
  compression_cfg :: CowCompression
  compressor :: "(u8 list \<Rightarrow> u8 list) option"
  num_compress_threads :: int
  resume_points :: "ResumePoint list"
  next_data_pos :: u64

definition IsEstimating :: "CowWriterV3 \<Rightarrow> bool" where
  "IsEstimating w = estimating w"

definition fd_request :: "io_request \<Rightarrow> CowWriterV3 \<Rightarrow> bool \<times> CowWriterV3" where
  "fd_request r w = (case request r (fd w) of (ok, f) \<Rightarrow> (ok, w\<lparr>fd := f\<rparr>))"

subsection \<open>Region offsets\<close>

text \<open>
  The four offset functions are defined in cow\_format.h, outside writer\_v3.cpp. The spec
  gives the regions in the order header, resume-point table (allocated for
  \<open>resume_point_max\<close> entries), sequence-data table, operation table (\<open>op_count_max\<close>
  records), scratch buffer, payload, and the start of the payload region as header size +
  resume-point table size + sequence-data table size + operation-table capacity times record
  size. A sequence-data entry is a \<^verbatim>\<open>uint32_t\<close>, four bytes.
\<close>

text \<open>
  Modelled from the spec: \<^verbatim>\<open>GetResumeOffset\<close> of cow\_format.h. The resume-point table
  follows the header.
\<close>

definition GetResumeOffset :: "cow_format \<Rightarrow> CowHeaderV3 \<Rightarrow> u64" where
  "GetResumeOffset fmt h = ucast (header_size h)"

text \<open>
  Modelled from the spec: \<^verbatim>\<open>GetSequenceOffset\<close> of cow\_format.h. The sequence-data table
  follows the resume-point table, which has room for \<open>resume_point_max\<close> entries.
\<close>

definition GetSequenceOffset :: "cow_format \<Rightarrow> CowHeaderV3 \<Rightarrow> u64" where
  "GetSequenceOffset fmt h =
     GetResumeOffset fmt h + ucast (resume_point_max h) * of_nat (sizeof_ResumePoint fmt)"

text \<open>
  Modelled from the spec: \<^verbatim>\<open>GetOpOffset\<close> of cow\_format.h. The operation table follows the
  sequence-data table; entry \<open>op_idx\<close> lies \<open>op_idx\<close> records into it.
\<close>

definition GetOpOffset :: "cow_format \<Rightarrow> u64 \<Rightarrow> CowHeaderV3 \<Rightarrow> u64" where
  "GetOpOffset fmt op_idx h =
     GetSequenceOffset fmt h + sequence_data_count h * 4
       + op_idx * of_nat (sizeof_CowOperationV3 fmt)"

text \<open>
  Modelled from the spec: \<^verbatim>\<open>GetDataOffset\<close> of cow\_format.h. The payload region starts
  after the \<open>op_count_max\<close> records of the operation table, and after the scratch buffer
  when there is one (\<open>buffer_size\<close> is zero otherwise). \<^verbatim>\<open>WriteOperation\<close> relies on the
  same dependence on \<open>op_count_max\<close>: when it raises \<open>op_count_max\<close> it moves the payload
  cursor by \<^verbatim>\<open>sizeof(CowOperationV3)\<close> for each added record.
\<close>

definition GetDataOffset :: "cow_format \<Rightarrow> CowHeaderV3 \<Rightarrow> u64" where
  "GetDataOffset fmt h = GetOpOffset fmt (op_count_max h) h + buffer_size h"

subsection \<open>The write protocol\<close>

text \<open>
  \<^verbatim>\<open>WriteOperation(ops, data)\<close>. \<^verbatim>\<open>ops.size()\<close> and \<^verbatim>\<open>data.size()\<close> are \<^verbatim>\<open>size_t\<close>; all the
  arithmetic is unsigned 64-bit.
\<close>

definition WriteOperation ::
  "cow_format \<Rightarrow> CowWriterV3 \<Rightarrow> CowOperationV3 list \<Rightarrow> u8 list \<Rightarrow> bool \<times> CowWriterV3" where
  "WriteOperation fmt w ops data =
     (if IsEstimating w then
        let h1 = (header w)\<lparr>op_count := op_count (header w) + of_nat (length ops)\<rparr>;
            w1 = w\<lparr>header := h1\<rparr>;
            w2 = (if op_count h1 > op_count_max h1
                  then w1\<lparr>next_data_pos := next_data_pos w1
                            + (op_count h1 - op_count_max h1) * of_nat (sizeof_CowOperationV3 fmt),
                          header := h1\<lparr>op_count_max := op_count h1\<rparr>\<rparr>
                  else w1)
        in (True, w2\<lparr>next_data_pos := next_data_pos w2 + of_nat (length data)\<rparr>)
      else if op_count (header w) + of_nat (length ops) > op_count_max (header w) then (False, w)
      else
        let offset = GetOpOffset fmt (op_count (header w)) (header w) in
        case fd_request (WriteOps offset ops) w of
          (False, w1) \<Rightarrow> (False, w1)
        | (True, w1) \<Rightarrow>
            (case (if data \<noteq> [] then fd_request (WriteData (next_data_pos w1) data) w1
                   else (True, w1)) of
               (False, w2) \<Rightarrow> (False, w2)
             | (True, w2) \<Rightarrow>
                 (True, w2\<lparr>header := (header w2)\<lparr>op_count := op_count (header w2) + of_nat (length ops)\<rparr>,
                           next_data_pos := next_data_pos w2 + of_nat (length data)\<rparr>)))"

definition GetCowSize :: "CowWriterV3 \<Rightarrow> u64" where
  "GetCowSize w = next_data_pos w"

subsection \<open>The operation emitter\<close>

definition EmitCopy :: "cow_format \<Rightarrow> CowWriterV3 \<Rightarrow> u64 \<Rightarrow> u64 \<Rightarrow> u64 \<Rightarrow> bool \<times> CowWriterV3" where
  "EmitCopy fmt w new_block' old_block num_blocks =
     WriteOperation fmt w
       (map (\<lambda>i. \<lparr>op_type = kCowCopyOp, new_block = new_block' + of_nat i,
                  source = old_block + of_nat i, data_length = 0\<rparr>)
            [0..<unat num_blocks])
       []"

definition EmitZeroBlocks :: "cow_format \<Rightarrow> CowWriterV3 \<Rightarrow> u64 \<Rightarrow> u64 \<Rightarrow> bool \<times> CowWriterV3" where
  "EmitZeroBlocks fmt w new_block_start num_blocks =
     WriteOperation fmt w
       (map (\<lambda>i. \<lparr>op_type = kCowZeroOp, new_block = new_block_start + of_nat i,
                  source = 0, data_length = 0\<rparr>)
            [0..<unat num_blocks])
       []"

text \<open>The record that the uncompressed branch of \<^verbatim>\<open>EmitBlocks\<close> builds for block \<open>i\<close>.\<close>

definition uncompressed_op ::
  "CowWriterV3 \<Rightarrow> u64 \<Rightarrow> u64 \<Rightarrow> u16 \<Rightarrow> CowOperationType \<Rightarrow> nat \<Rightarrow> CowOperationV3" where
  "uncompressed_op w new_block_start old_block offset type i =
     \<lparr>op_type = type,
      new_block = new_block_start + of_nat i,
      source = (if type = kCowXorOp
                then (old_block + of_nat i) * ucast (block_size (header w)) + ucast offset
                else next_data_pos w + ucast (block_size (header w)) * of_nat i),
      data_length = ucast (block_size (header w))\<rparr>"

text \<open>
  One pass of the loop of the compressed branch, for block \<open>i\<close>: the record and the bytes
  handed to \<^verbatim>\<open>WriteOperation(op, out_data, op.data_length)\<close>.
\<close>

definition compressed_block ::
  "(u8 list \<Rightarrow> u8 list) \<Rightarrow> CowWriterV3 \<Rightarrow> u64 \<Rightarrow> u8 list \<Rightarrow> u64 \<Rightarrow> u16 \<Rightarrow> CowOperationType
     \<Rightarrow> nat \<Rightarrow> CowOperationV3 \<times> u8 list" where
  "compressed_block c w new_block_start data old_block offset type i =
     (let bs = unat (block_size (header w));
          iter = take bs (drop (bs * i) data);
          op = \<lparr>op_type = type,
                new_block = new_block_start + of_nat i,
                source = (if type = kCowXorOp
                          then (old_block + of_nat i) * ucast (block_size (header w)) + ucast offset
                          else next_data_pos w),
                data_length = ucast (block_size (header w))\<rparr>;
          compressed_data = c iter
      in if length compressed_data < unat (data_length op)
         then (op\<lparr>data_length := of_nat (length compressed_data)\<rparr>, compressed_data)
         else (op, iter))"

text \<open>
  The loop of the compressed branch over the block indices still to do. A failed
  \<^verbatim>\<open>WriteOperation\<close> restores the two saved counters and ends the call.
\<close>

fun EmitBlocks_loop ::
  "cow_format \<Rightarrow> (u8 list \<Rightarrow> u8 list) \<Rightarrow> u64 \<Rightarrow> u8 list \<Rightarrow> u64 \<Rightarrow> u16 \<Rightarrow> CowOperationType
     \<Rightarrow> u64 \<Rightarrow> u64 \<Rightarrow> nat list \<Rightarrow> CowWriterV3 \<Rightarrow> bool \<times> CowWriterV3" where
  "EmitBlocks_loop fmt c new_block_start data old_block offset type saved_op_count saved_data_pos
       [] w = (True, w)"
| "EmitBlocks_loop fmt c new_block_start data old_block offset type saved_op_count saved_data_pos
       (i # rest) w =
     (case compressed_block c w new_block_start data old_block offset type i of
        (op, out_data) \<Rightarrow>
          (case WriteOperation fmt w [op] out_data of
             (False, w1) \<Rightarrow>
               (False, w1\<lparr>header := (header w1)\<lparr>op_count := saved_op_count\<rparr>,
                          next_data_pos := saved_data_pos\<rparr>)
           | (True, w1) \<Rightarrow>
               EmitBlocks_loop fmt c new_block_start data old_block offset type
                 saved_op_count saved_data_pos rest w1))"

text \<open>
  \<^verbatim>\<open>EmitBlocks\<close>. \<open>size\<close> is the length of \<open>data\<close>. \<^verbatim>\<open>size / header_.block_size\<close> with a zero
  block size has no defined result: the call returns \<open>None\<close>.
\<close>

definition EmitBlocks ::
  "cow_format \<Rightarrow> CowWriterV3 \<Rightarrow> u64 \<Rightarrow> u8 list \<Rightarrow> u64 \<Rightarrow> u16 \<Rightarrow> CowOperationType
     \<Rightarrow> (bool \<times> CowWriterV3) option" where
  "EmitBlocks fmt w new_block_start data old_block offset type =
     (if algorithm (compression_cfg w) \<noteq> kCowCompressNone \<and> compressor w = None
      then Some (False, w)
      else if block_size (header w) = 0 then None
      else
        let num_blocks = length data div unat (block_size (header w)) in
        if algorithm (compression_cfg w) = kCowCompressNone
        then Some (WriteOperation fmt w
                     (map (uncompressed_op w new_block_start old_block offset type) [0..<num_blocks])
                     data)
        else
          (case compressor w of
             None \<Rightarrow> Some (False, w)
           | Some c \<Rightarrow>
               Some (EmitBlocks_loop fmt c new_block_start data old_block offset type
                       (op_count (header w)) (next_data_pos w) [0..<num_blocks] w)))"

definition EmitRawBlocks ::
  "cow_format \<Rightarrow> CowWriterV3 \<Rightarrow> u64 \<Rightarrow> u8 list \<Rightarrow> (bool \<times> CowWriterV3) option" where
  "EmitRawBlocks fmt w new_block_start data = EmitBlocks fmt w new_block_start data 0 0 kCowReplaceOp"

definition EmitXorBlocks ::
  "cow_format \<Rightarrow> CowWriterV3 \<Rightarrow> u32 \<Rightarrow> u8 list \<Rightarrow> u32 \<Rightarrow> u16 \<Rightarrow> (bool \<times> CowWriterV3) option" where
  "EmitXorBlocks fmt w new_block_start data old_block offset =
     EmitBlocks fmt w (ucast new_block_start) data (ucast old_block) offset kCowXorOp"

subsection \<open>Finalize, labels and sequence data\<close>

text \<open>
  \<^verbatim>\<open>Finalize\<close>. \<^verbatim>\<open>header_\<close> is a \<^verbatim>\<open>CowHeaderV3\<close>, so both \<^verbatim>\<open>CHECK\<close>s compare the declared
  header size with \<^verbatim>\<open>sizeof(CowHeaderV3)\<close>; a failed \<^verbatim>\<open>CHECK\<close> aborts.
\<close>

definition Finalize :: "cow_format \<Rightarrow> CowWriterV3 \<Rightarrow> (bool \<times> CowWriterV3) option" where
  "Finalize fmt w =
     (if \<not> (unat (header_size (header w)) \<ge> sizeof_CowHeaderV3 fmt) then None
      else if \<not> (unat (header_size (header w)) \<le> sizeof_CowHeaderV3 fmt) then None
      else
        (case fd_request (WriteHeader (header w) (header_size (header w))) w of
           (False, w1) \<Rightarrow> Some (False, w1)
         | (True, w1) \<Rightarrow> Some (fd_request SyncFile w1)))"

text \<open>The \<^verbatim>\<open>while\<close> loop of \<^verbatim>\<open>EmitLabel\<close>: erase the first element while the vector is too long.\<close>

fun erase_oldest :: "nat \<Rightarrow> ResumePoint list \<Rightarrow> ResumePoint list" where
  "erase_oldest m [] = []"
| "erase_oldest m (p # ps) = (if length (p # ps) > m then erase_oldest m ps else p # ps)"

definition EmitLabel :: "cow_format \<Rightarrow> CowWriterV3 \<Rightarrow> u64 \<Rightarrow> (bool \<times> CowWriterV3) option" where
  "EmitLabel fmt w label' =
     (let kept = filter (\<lambda>resume_point. \<not> (label resume_point \<ge> label')) (resume_points w);
          pushed = kept @ [\<lparr>label = label', op_index = op_count (header w)\<rparr>];
          h1 = (header w)\<lparr>resume_point_count := resume_point_count (header w) + 1\<rparr>;
          w1 = w\<lparr>resume_points := erase_oldest (unat (resume_point_max h1)) pushed, header := h1\<rparr>
      in if \<not> (length (resume_points w1) \<le> unat (resume_point_max (header w1))) then None
         else
           (case fd_request (WriteResumeBuffer (GetResumeOffset fmt (header w1)) (resume_points w1)) w1 of
              (False, w2) \<Rightarrow> Some (False, w2)
            | (True, w2) \<Rightarrow> Finalize fmt w2))"

text \<open>\<^verbatim>\<open>EmitSequenceData(num_ops, data)\<close>: \<open>data\<close> is the array of \<open>num_ops\<close> values.\<close>

definition EmitSequenceData :: "cow_format \<Rightarrow> CowWriterV3 \<Rightarrow> u32 list \<Rightarrow> bool \<times> CowWriterV3" where
  "EmitSequenceData fmt w data =
     (let w1 = w\<lparr>header := (header w)\<lparr>sequence_data_count := of_nat (length data)\<rparr>\<rparr> in
      case fd_request (WriteSequenceBuffer (GetSequenceOffset fmt (header w1)) data) w1 of
        (False, w2) \<Rightarrow> (False, w2)
      | (True, w2) \<Rightarrow> (True, w2))"

subsection \<open>Opening a session\<close>

text \<open>
  What the writer calls outside writer\_v3.cpp when it opens a session, taken as a
  parameter: \<^verbatim>\<open>InitFd\<close> of the base class (\<open>None\<close> when it fails, otherwise what
  \<^verbatim>\<open>IsEstimating()\<close> returns from then on), the parsing helpers of \<^verbatim>\<open>ParseOptions\<close>,
  \<^verbatim>\<open>ICompressor::Create\<close> (\<open>None\<close> for the null pointer), \<^verbatim>\<open>ReadCowHeader\<close> on the file, and
  \<^verbatim>\<open>CowParserV3\<close>: \<^verbatim>\<open>Parse\<close> (\<open>None\<close> when it fails) gives the parser, whose
  \<^verbatim>\<open>resume_points()\<close> and \<^verbatim>\<open>Translate\<close> are the two fields of \<open>CowParserV3\<close>.
\<close>

record CowParserV3 =
  parser_resume_points :: "ResumePoint list"
  Translate :: "CowOperationV3 list"

record cow_externals =
  InitFd :: "bool option"
  CompressionAlgorithmFromString :: "string \<Rightarrow> CowCompressionAlgorithm option"
  ParseUint :: "string \<Rightarrow> u32 option"
  GetDefaultCompressionLevel :: "CowCompressionAlgorithm \<Rightarrow> u32"
  ICompressor_Create :: "CowCompression \<Rightarrow> u32 \<Rightarrow> (u8 list \<Rightarrow> u8 list) option"
  ReadCowHeader :: "CowHeaderV3 option"
  Parse :: "CowHeaderV3 \<Rightarrow> u64 \<Rightarrow> CowParserV3 option"

definition SetupHeaders :: "cow_format \<Rightarrow> CowWriterV3 \<Rightarrow> CowWriterV3" where
  "SetupHeaders fmt w =
     w\<lparr>header :=
        \<lparr>magic = kCowMagicNumber fmt,
         major_version = 3,
         minor_version = 0,
         header_size = of_nat (sizeof_CowHeaderV3 fmt),
         footer_size = 0,
         op_size = of_nat (sizeof_CowOperationV3 fmt),
         block_size = opt_block_size (options w),
         num_merge_ops = opt_num_merge_ops (options w),
         cluster_ops = 0,
         buffer_size = (if scratch_space (options w) then BUFFER_REGION_DEFAULT_SIZE fmt else 0),
         sequence_data_count = 0,
         resume_point_count = 0,
         resume_point_max = kNumResumePoints fmt,
         op_count = 0,
         op_count_max = 0,
         compression_algorithm = kCowCompressNone\<rparr>\<rparr>"

text \<open>
  The constructor: the members take the values of their declarations (no compressor, an
  empty resume-point vector, a zero payload cursor), then \<^verbatim>\<open>SetupHeaders\<close> fills the header.
\<close>

definition CowWriterV3_new :: "cow_format \<Rightarrow> CowOptions \<Rightarrow> cow_fd \<Rightarrow> CowWriterV3" where
  "CowWriterV3_new fmt opts f =
     SetupHeaders fmt
       \<lparr>options = opts, fd = f, estimating = False,
        header = \<lparr>magic = 0, major_version = 0, minor_version = 0, header_size = 0,
                  footer_size = 0, op_size = 0, block_size = 0, num_merge_ops = 0,
                  cluster_ops = 0, buffer_size = 0, sequence_data_count = 0,
                  resume_point_count = 0, resume_point_max = 0, op_count = 0,
                  op_count_max = 0, compression_algorithm = kCowCompressNone\<rparr>,
        compression_cfg = \<lparr>algorithm = kCowCompressNone, compression_level = 0\<rparr>,
        compressor = None, num_compress_threads = 1, resume_points = [], next_data_pos = 0\<rparr>"

text \<open>\<^verbatim>\<open>android::base::Split\<close> on one delimiter: the pieces between its occurrences.\<close>

fun Split :: "string \<Rightarrow> char \<Rightarrow> string list" where
  "Split [] d = [] # []"
| "Split (c # cs) d =
     (if c = d then [] # Split cs d
      else (case Split cs d of [] \<Rightarrow> (c # []) # [] | p # ps \<Rightarrow> (c # p) # ps))"

definition ParseOptions :: "cow_externals \<Rightarrow> CowWriterV3 \<Rightarrow> bool \<times> CowWriterV3" where
  "ParseOptions ext w =
     (let w1 = w\<lparr>num_compress_threads := max (opt_num_compress_threads (options w)) 1\<rparr>;
          parts = Split (compression (options w1)) (CHR '','')
      in if length parts > 2 then (False, w1)
         else
           (case CompressionAlgorithmFromString ext (hd parts) of
              None \<Rightarrow> (False, w1)
            | Some algorithm' \<Rightarrow>
                let w2 = w1\<lparr>header := (header w1)\<lparr>compression_algorithm := algorithm',
                                                   op_count_max := opt_op_count_max (options w1)\<rparr>\<rparr>;
                    level = (if length parts > 1 then ParseUint ext (parts ! 1)
                             else Some (GetDefaultCompressionLevel ext algorithm'))
                in (case level of
                      None \<Rightarrow> (False, w2)
                    | Some l \<Rightarrow>
                        let w3 = w2\<lparr>compression_cfg :=
                                      \<lparr>algorithm = algorithm', compression_level = l\<rparr>\<rparr>
                        in if algorithm (compression_cfg w3) \<noteq> kCowCompressNone
                           then (case ICompressor_Create ext (compression_cfg w3)
                                        (block_size (header w3)) of
                                   None \<Rightarrow> (False, w3)
                                 | Some c \<Rightarrow> (True, w3\<lparr>compressor := Some c\<rparr>))
                           else (True, w3))))"

definition OpenForWrite :: "cow_format \<Rightarrow> CowWriterV3 \<Rightarrow> bool \<times> CowWriterV3" where
  "OpenForWrite fmt w =
     (if unat (block_size (header w)) > 65535 then (False, w)
      else
        (case fd_request (Seek 0) w of
           (False, w1) \<Rightarrow> (False, w1)
         | (True, w1) \<Rightarrow>
             (case fd_request (WriteHeaderPlaceholder (header w1)) w1 of
                (False, w2) \<Rightarrow> (False, w2)
              | (True, w2) \<Rightarrow>
                  (case (if scratch_space (options w2)
                         then fd_request (WriteScratch (buffer_size (header w2))) w2
                         else (True, w2)) of
                     (False, w3) \<Rightarrow> (False, w3)
                   | (True, w3) \<Rightarrow>
                       (case fd_request SyncFile (w3\<lparr>resume_points := []\<rparr>) of
                          (False, w4) \<Rightarrow> (False, w4)
                        | (True, w4) \<Rightarrow>
                            (True, w4\<lparr>next_data_pos := GetDataOffset fmt (header w4)\<rparr>))))))"

definition OpenForAppend ::
  "cow_externals \<Rightarrow> cow_format \<Rightarrow> CowWriterV3 \<Rightarrow> u64 \<Rightarrow> bool \<times> CowWriterV3" where
  "OpenForAppend ext fmt w label' =
     (case ReadCowHeader ext of
        None \<Rightarrow> (False, w)
      | Some header_v3 \<Rightarrow>
          let w1 = w\<lparr>header := header_v3\<rparr> in
          (case Parse ext (header w1) label' of
             None \<Rightarrow> (False, w1)
           | Some parser \<Rightarrow>
               let w2 = w1\<lparr>resume_points := parser_resume_points parser,
                           options := (options w1)\<lparr>opt_block_size := block_size (header w1)\<rparr>,
                           next_data_pos := GetDataOffset fmt (header w1)\<rparr>;
                   ops = Translate parser;
                   w3 = w2\<lparr>header := (header w2)\<lparr>op_count := of_nat (length ops)\<rparr>\<rparr>
               in (True,
                   fold (\<lambda>op w'. w'\<lparr>next_data_pos := next_data_pos w' + data_length op\<rparr>) ops w3)))"

definition Initialize ::
  "cow_externals \<Rightarrow> cow_format \<Rightarrow> CowWriterV3 \<Rightarrow> u64 option \<Rightarrow> bool \<times> CowWriterV3" where
  "Initialize ext fmt w label' =
     (case InitFd ext of
        None \<Rightarrow> (False, w)
      | Some est \<Rightarrow>
          (case ParseOptions ext (w\<lparr>estimating := est\<rparr>) of
             (False, w1) \<Rightarrow> (False, w1)
           | (True, w1) \<Rightarrow>
               (case label' of
                  None \<Rightarrow> OpenForWrite fmt w1
                | Some l \<Rightarrow> OpenForAppend ext fmt w1 l)))"

subsection \<open>Replaying a sequence of calls\<close>

datatype emit_call =
  Copy u64 u64 u64
  | RawBlocks u64 "u8 list"
  | XorBlocks u32 "u8 list" u32 u16
  | ZeroBlocks u64 u64
  | Label u64
  | SequenceData "u32 list"

fun emit :: "cow_format \<Rightarrow> CowWriterV3 \<Rightarrow> emit_call \<Rightarrow> (bool \<times> CowWriterV3) option" where
  "emit fmt w (Copy new_block' old_block num_blocks) =
     Some (EmitCopy fmt w new_block' old_block num_blocks)"
| "emit fmt w (RawBlocks new_block_start data) = EmitRawBlocks fmt w new_block_start data"
| "emit fmt w (XorBlocks new_block_start data old_block offset) =
     EmitXorBlocks fmt w new_block_start data old_block offset"
| "emit fmt w (ZeroBlocks new_block_start num_blocks) =
     Some (EmitZeroBlocks fmt w new_block_start num_blocks)"
| "emit fmt w (Label l) = EmitLabel fmt w l"
| "emit fmt w (SequenceData data) = Some (EmitSequenceData fmt w data)"

text \<open>
  A client makes the calls in order and stops at the first one that reports failure: the
  result is whether every call succeeded, and the writer after the last call made.
\<close>

fun replay :: "cow_format \<Rightarrow> CowWriterV3 \<Rightarrow> emit_call list \<Rightarrow> (bool \<times> CowWriterV3) option" where
  "replay fmt w [] = Some (True, w)"
| "replay fmt w (c # cs) =
     (case emit fmt w c of
        None \<Rightarrow> None
      | Some (False, w1) \<Rightarrow> Some (False, w1)
      | Some (True, w1) \<Rightarrow> replay fmt w1 cs)"

subsection \<open>An estimating session and a real session side by side\<close>


subsection \<open>Reading the log of the file\<close>

text \<open>
  What the completed requests put into the operation table and into the payload region:
  the records of the \<open>WriteOps\<close> requests, and the bytes of the \<open>WriteData\<close> requests, in
  the order of the requests.
\<close>

fun logged_ops :: "io_request list \<Rightarrow> CowOperationV3 list" where
  "logged_ops [] = []"
| "logged_ops (WriteOps offset ops # rs) = ops @ logged_ops rs"
| "logged_ops (r # rs) = logged_ops rs"

fun logged_data :: "io_request list \<Rightarrow> u8 list" where
  "logged_data [] = []"
| "logged_data (WriteData offset bytes # rs) = bytes @ logged_data rs"
| "logged_data (r # rs) = logged_data rs"

subsection \<open>Concrete sessions for the closed examples\<close>

text \<open>
  A format, options and surroundings on which the theorems below are instantiated: blocks
  of four bytes, 16-byte operation records and resume points, four resume points, and a toy
  compressor that shrinks an all-zero block to one byte and returns any other block as it
  is (so its result is as long as the block).
\<close>

definition example_format :: cow_format where
  "example_format =
     \<lparr>kCowMagicNumber = 0x436f77634f572121, sizeof_CowHeaderV3 = 78, sizeof_CowOperationV3 = 16,
      sizeof_ResumePoint = 16, kNumResumePoints = 4, BUFFER_REGION_DEFAULT_SIZE = 2097152\<rparr>"

definition example_options :: "string \<Rightarrow> u64 \<Rightarrow> CowOptions" where
  "example_options cspec m =
     \<lparr>opt_block_size = 4, opt_num_merge_ops = 0, scratch_space = False, compression = cspec,
      opt_num_compress_threads = 1, opt_op_count_max = m\<rparr>"

definition example_compress :: "u8 list \<Rightarrow> u8 list" where
  "example_compress block = (if list_all (\<lambda>b. b = 0) block then 0 # [] else block)"

definition example_externals :: "bool \<Rightarrow> cow_externals" where
  "example_externals est =
     \<lparr>InitFd = Some est,
      CompressionAlgorithmFromString =
        (\<lambda>name. if name = ''none'' \<or> name = [] then Some kCowCompressNone
                else if name = ''lz4'' then Some kCowCompressLz4 else None),
      ParseUint = (\<lambda>text. None),
      GetDefaultCompressionLevel = (\<lambda>a. 0),
      ICompressor_Create = (\<lambda>cfg bs. Some example_compress),
      ReadCowHeader = None,
      Parse = (\<lambda>h l. None)\<rparr>"

text \<open>
  \<open>example_session est cspec m outs\<close>: a fresh session (\<^verbatim>\<open>Initialize\<close> with no label) that is
  estimating or not, with the compression string \<open>cspec\<close>, \<open>op_count_max\<close> \<open>m\<close> in the options,
  on a file whose requests have the outcomes \<open>outs\<close>.
\<close>

definition example_session :: "bool \<Rightarrow> string \<Rightarrow> u64 \<Rightarrow> bool list \<Rightarrow> bool \<times> CowWriterV3" where
  "example_session est cspec m outs =
     Initialize (example_externals est) example_format
       (CowWriterV3_new example_format (example_options cspec m)
          \<lparr>completed = [], outcomes = outs\<rparr>)
       None"

text \<open>
  Surroundings for a resumed session: the file holds the header of a session opened with
  the example options and capacity 8, and the parser recovers, at label 1, the resume point
  (1, 2) and two replace records of four payload bytes each.
\<close>

definition example_resume_externals :: cow_externals where
  "example_resume_externals =
     (example_externals False)
       \<lparr>ReadCowHeader := Some (header (snd (example_session False ''none'' 8 []))),
        Parse := (\<lambda>h l. if l = 1
                   then Some \<lparr>parser_resume_points = \<lparr>label = 1, op_index = 2\<rparr> # [],
                              Translate =
                                \<lparr>op_type = kCowReplaceOp, new_block = 0, source = 270,
                                 data_length = 4\<rparr>
                                # \<lparr>op_type = kCowReplaceOp, new_block = 1, source = 274,
                                    data_length = 4\<rparr> # []\<rparr>
                   else None)\<rparr>"

text \<open>The writer after a call: the one the call returned, or \<open>w\<close> when the process ended.\<close>

definition writer_of :: "(bool \<times> CowWriterV3) option \<Rightarrow> CowWriterV3 \<Rightarrow> CowWriterV3" where
  "writer_of r w = (case r of Some (ok, w') \<Rightarrow> w' | None \<Rightarrow> w)"

section \<open>Properties\<close>

lemmas example_defs =
  example_session_def Initialize_def example_externals_def example_format_def
  CowWriterV3_new_def example_options_def SetupHeaders_def ParseOptions_def OpenForWrite_def
  fd_request_def request_def GetDataOffset_def GetOpOffset_def GetSequenceOffset_def
  GetResumeOffset_def IsEstimating_def Let_def

subsection \<open>The write protocol\<close>

lemma WriteOperation_estimating:
  "IsEstimating w \<Longrightarrow>
   WriteOperation fmt w ops data =
     (True,
      w\<lparr>header := (header w)
           \<lparr>op_count := op_count (header w) + of_nat (length ops),
            op_count_max :=
              (if op_count (header w) + of_nat (length ops) > op_count_max (header w)
               then op_count (header w) + of_nat (length ops) else op_count_max (header w))\<rparr>,
        next_data_pos :=
          next_data_pos w
          + (if op_count (header w) + of_nat (length ops) > op_count_max (header w)
             then (op_count (header w) + of_nat (length ops) - op_count_max (header w))
                    * of_nat (sizeof_CowOperationV3 fmt)
             else 0)
          + of_nat (length data)\<rparr>)"
  by (simp add: WriteOperation_def Let_def)

text \<open>
  Claim C9. In estimating mode \<^verbatim>\<open>WriteOperation\<close> returns true for every batch of records
  and every payload: the committed operation count advances by the number of records,
  \<open>op_count_max\<close> becomes the new count when the new count is greater and is unchanged
  otherwise, and the payload cursor advances by the bytes that the growth of the table adds
  (the growth of \<open>op_count_max\<close> times the record size) plus the length of the payload. The
  file is not touched. All the arithmetic is the code's, unsigned 64-bit.
\<close>

theorem WriteOperation_estimating_succeeds:
  assumes "IsEstimating w"
  shows "\<exists>w'. WriteOperation fmt w ops data = (True, w')
           \<and> op_count (header w') = op_count (header w) + of_nat (length ops)
           \<and> op_count_max (header w') =
               (if op_count (header w) + of_nat (length ops) > op_count_max (header w)
                then op_count (header w) + of_nat (length ops) else op_count_max (header w))
           \<and> next_data_pos w' =
               next_data_pos w
               + (op_count_max (header w') - op_count_max (header w))
                   * of_nat (sizeof_CowOperationV3 fmt)
               + of_nat (length data)
           \<and> fd w' = fd w"
  using assms by (simp add: WriteOperation_estimating)

theorem WriteOperation_estimating_succeeds_witness:
  "IsEstimating (snd (example_session True ''none'' 1 []))
   \<and> (\<exists>w'. WriteOperation example_format (snd (example_session True ''none'' 1 []))
              (replicate 3 \<lparr>op_type = kCowZeroOp, new_block = 7, source = 0, data_length = 0\<rparr>)
              (replicate 5 0) = (True, w')
           \<and> op_count (header w') = 3
           \<and> op_count_max (header w') = 3
           \<and> next_data_pos w' = 158 + 32 + 5
           \<and> fd w' = fd (snd (example_session True ''none'' 1 [])))"
  using WriteOperation_estimating_succeeds
          [of "snd (example_session True ''none'' 1 [])" example_format
              "replicate 3 \<lparr>op_type = kCowZeroOp, new_block = 7, source = 0, data_length = 0\<rparr>"
              "replicate 5 0"]
  by (simp add: example_defs WriteOperation_def)

text \<open>
  Claim C2. In real mode, a batch of \<open>n\<close> records with committed count + \<open>n\<close> greater than
  \<open>op_count_max\<close> fails, and the writer after the call is the writer before it: the
  committed operation count, the payload cursor and everything else, the file included.
  The code adds \<^verbatim>\<open>header_.op_count + ops.size()\<close> in 64 bits; the batch is an array in
  memory, so the sum is below \<open>2 ^ 64\<close>.
\<close>

theorem WriteOperation_over_capacity_fails:
  assumes "\<not> IsEstimating w"
    and "unat (op_count (header w)) + length ops > unat (op_count_max (header w))"
    and "unat (op_count (header w)) + length ops < 2 ^ 64"
  shows "WriteOperation fmt w ops data = (False, w)
         \<and> op_count (header (snd (WriteOperation fmt w ops data))) = op_count (header w)
         \<and> next_data_pos (snd (WriteOperation fmt w ops data)) = next_data_pos w"
proof -
  have "unat (op_count (header w) + of_nat (length ops)) = unat (op_count (header w)) + length ops"
    using assms(3) by (simp add: unat_word_ariths unat_of_nat)
  then have "op_count (header w) + of_nat (length ops) > op_count_max (header w)"
    using assms(2) by (simp add: word_less_nat_alt)
  then show ?thesis using assms(1) by (simp add: WriteOperation_def)
qed

theorem WriteOperation_over_capacity_fails_witness:
  "\<not> IsEstimating (snd (example_session False ''none'' 2 []))
   \<and> unat (op_count (header (snd (example_session False ''none'' 2 [])))) + 3
       > unat (op_count_max (header (snd (example_session False ''none'' 2 []))))
   \<and> WriteOperation example_format (snd (example_session False ''none'' 2 []))
        (replicate 3 \<lparr>op_type = kCowZeroOp, new_block = 7, source = 0, data_length = 0\<rparr>) []
      = (False, snd (example_session False ''none'' 2 []))"
  using WriteOperation_over_capacity_fails
          [of "snd (example_session False ''none'' 2 [])"
              "replicate 3 \<lparr>op_type = kCowZeroOp, new_block = 7, source = 0, data_length = 0\<rparr>"
              example_format "[]"]
  by (simp add: example_defs WriteOperation_def)

subsection \<open>Labels\<close>

lemma erase_oldest_drop: "erase_oldest m ps = drop (length ps - m) ps"
  by (induction ps) (auto simp: Suc_diff_le)

lemma fd_request_fields:
  "fd_request r w = (ok, w') \<Longrightarrow>
     header w' = header w \<and> resume_points w' = resume_points w \<and> next_data_pos w' = next_data_pos w
     \<and> estimating w' = estimating w \<and> compression_cfg w' = compression_cfg w
     \<and> compressor w' = compressor w \<and> options w' = options w
     \<and> num_compress_threads w' = num_compress_threads w"
  by (auto simp: fd_request_def split: prod.splits)

lemma Finalize_fields:
  "Finalize fmt w = Some (ok, w') \<Longrightarrow>
     header w' = header w \<and> resume_points w' = resume_points w \<and> next_data_pos w' = next_data_pos w
     \<and> estimating w' = estimating w \<and> compression_cfg w' = compression_cfg w
     \<and> compressor w' = compressor w \<and> options w' = options w
     \<and> num_compress_threads w' = num_compress_threads w"
  by (auto simp: Finalize_def split: if_splits prod.splits bool.splits dest!: fd_request_fields)

lemma EmitLabel_fields:
  assumes "EmitLabel fmt w l = Some (ok, w')"
  shows "resume_points w' =
           erase_oldest (unat (resume_point_max (header w)))
             (filter (\<lambda>p. label p < l) (resume_points w)
                @ [\<lparr>label = l, op_index = op_count (header w)\<rparr>])"
    and "header w' = (header w)\<lparr>resume_point_count := resume_point_count (header w) + 1\<rparr>"
    and "next_data_pos w' = next_data_pos w"
    and "estimating w' = estimating w \<and> compression_cfg w' = compression_cfg w
     \<and> compressor w' = compressor w \<and> options w' = options w
     \<and> num_compress_threads w' = num_compress_threads w"
  using assms
  by (auto simp: EmitLabel_def Let_def not_le split: if_splits prod.splits bool.splits
           dest!: fd_request_fields Finalize_fields)

lemma EmitLabel_resume_points:
  assumes "EmitLabel fmt w l = Some (ok, w')"
  shows "resume_points w' =
           drop (length (filter (\<lambda>p. label p < l) (resume_points w)) + 1
                   - unat (resume_point_max (header w)))
             (filter (\<lambda>p. label p < l) (resume_points w)
                @ [\<lparr>label = l, op_index = op_count (header w)\<rparr>])"
  using EmitLabel_fields(1)[OF assms] by (simp add: erase_oldest_drop)

text \<open>
  The vector is within its bound after every \<^verbatim>\<open>EmitLabel\<close>, whatever the labels: the
  \<^verbatim>\<open>CHECK_LE\<close> of the function never fires, and the call ends the process only through the
  \<^verbatim>\<open>CHECK\<close>s of \<^verbatim>\<open>Finalize\<close> on the declared header size.
\<close>

lemma EmitLabel_bounded:
  "EmitLabel fmt w l = Some (ok, w') \<Longrightarrow>
     length (resume_points w') \<le> unat (resume_point_max (header w'))"
  by (frule EmitLabel_fields(1), drule EmitLabel_fields(2)) (simp add: erase_oldest_drop)

lemma EmitLabel_returns:
  "unat (header_size (header w)) = sizeof_CowHeaderV3 fmt \<Longrightarrow>
     \<exists>ok w'. EmitLabel fmt w l = Some (ok, w')"
  by (auto simp: EmitLabel_def Finalize_def Let_def erase_oldest_drop
           split: prod.splits bool.splits dest!: fd_request_fields)

lemma EmitLabel_succeeds:
  assumes "outcomes (fd w) = []" and "unat (header_size (header w)) = sizeof_CowHeaderV3 fmt"
  shows "\<exists>w'. EmitLabel fmt w l = Some (True, w') \<and> outcomes (fd w') = []"
  using assms
  by (simp add: EmitLabel_def Finalize_def Let_def erase_oldest_drop fd_request_def request_def)

text \<open>
  The header field \<open>resume_point_count\<close> does not follow the vector: every call adds one
  to it, also when the call removes or evicts entries of the vector.
\<close>

lemma EmitLabel_header_resume_point_count:
  "EmitLabel fmt w l = Some (ok, w') \<Longrightarrow>
     resume_point_count (header w') = resume_point_count (header w) + 1"
  by (drule EmitLabel_fields(2)) simp

lemma relabel_same:
  fixes xs :: "ResumePoint list"
  assumes "\<forall>q\<in>set xs. label q < l" and "label p = l"
  shows "drop (length (filter (\<lambda>q. label q < l) (drop (length xs + 1 - m) (xs @ [p]))) + 1 - m)
              (filter (\<lambda>q. label q < l) (drop (length xs + 1 - m) (xs @ [p])) @ [p])
         = drop (length xs + 1 - m) (xs @ [p])"
proof (cases "m = 0")
  case True
  then show ?thesis using assms by simp
next
  case False
  define k where "k = length xs + 1 - m"
  have k: "k \<le> length xs" using False by (simp add: k_def)
  have d: "drop k (xs @ [p]) = drop k xs @ [p]" using k by simp
  have "\<forall>q\<in>set (drop k xs). label q < l" using assms(1) by (meson in_set_dropD)
  then have f: "filter (\<lambda>q. label q < l) (drop k xs) = drop k xs" by (simp add: filter_id_conv)
  have "length (drop k xs) + 1 - m = 0" using False by (simp add: k_def)
  then show ?thesis using d f assms(2) unfolding k_def[symmetric] by simp
qed

text \<open>
  The vector of resume points. \<^verbatim>\<open>EmitLabel(l)\<close> removes every entry whose label is greater
  than or equal to \<open>l\<close>, appends the pair of \<open>l\<close> and the committed operation count, and
  keeps the last \<open>resume_point_max\<close> entries of the result. A second \<^verbatim>\<open>EmitLabel(l)\<close> right
  after it leaves the vector as the first call left it, whatever the two calls return (the
  vector is updated before anything is written).
\<close>

lemma EmitLabel_twice_same_vector:
  assumes "EmitLabel fmt w l = Some (ok1, w1)" and "EmitLabel fmt w1 l = Some (ok2, w2)"
  shows "resume_points w1 =
           drop (length (filter (\<lambda>p. \<not> label p \<ge> l) (resume_points w)) + 1
                   - unat (resume_point_max (header w)))
             (filter (\<lambda>p. \<not> label p \<ge> l) (resume_points w)
                @ [\<lparr>label = l, op_index = op_count (header w)\<rparr>])
         \<and> resume_points w2 = resume_points w1
         \<and> length (resume_points w2) = length (resume_points w1)"
proof -
  let ?xs = "filter (\<lambda>p. label p < l) (resume_points w)"
  let ?p = "\<lparr>label = l, op_index = op_count (header w)\<rparr>"
  let ?m = "unat (resume_point_max (header w))"
  have r1: "resume_points w1 = drop (length ?xs + 1 - ?m) (?xs @ [?p])"
    by (rule EmitLabel_resume_points[OF assms(1)])
  have h1: "header w1 = (header w)\<lparr>resume_point_count := resume_point_count (header w) + 1\<rparr>"
    by (rule EmitLabel_fields(2)[OF assms(1)])
  have r2: "resume_points w2 =
      drop (length (filter (\<lambda>p. label p < l) (resume_points w1)) + 1 - ?m)
        (filter (\<lambda>p. label p < l) (resume_points w1) @ [?p])"
    using EmitLabel_resume_points[OF assms(2)] h1 by simp
  have "resume_points w2 = resume_points w1"
    unfolding r2 unfolding r1 by (rule relabel_same) simp_all
  then show ?thesis using r1 by (simp add: not_le)
qed

lemmas label_defs = EmitLabel_def Finalize_def writer_of_def

text \<open>
  Claim C4. The claim says that a second \<^verbatim>\<open>EmitLabel(l)\<close> replaces the entry for \<open>l\<close> and
  leaves the resume-point count as it was. The vector does that (lemma
  \<open>EmitLabel_twice_same_vector\<close>), but the count that the header carries and that
  \<^verbatim>\<open>Finalize\<close> writes to the file, \<open>resume_point_count\<close>, does not: line 328 increments it
  on every call. Here: a fresh real session after the labels 2, 3 and 4; \<^verbatim>\<open>EmitLabel(3)\<close>
  leaves the two resume points 2 and 3 and the header count 4, and a second
  \<^verbatim>\<open>EmitLabel(3)\<close> leaves the same two resume points and the header count 5.
\<close>

theorem EmitLabel_twice_header_count_grows:
  "\<exists>w w1 w2.
      replay example_format (snd (example_session False ''none'' 8 []))
        (map Label (2 # 3 # 4 # [])) = Some (True, w)
    \<and> EmitLabel example_format w 3 = Some (True, w1)
    \<and> EmitLabel example_format w1 3 = Some (True, w2)
    \<and> map label (resume_points w1) = 2 # 3 # []
    \<and> resume_points w2 = resume_points w1
    \<and> length (resume_points w1) = 2
    \<and> resume_point_count (header w1) = 4
    \<and> resume_point_count (header w2) = 5"
proof -
  have "\<exists>w. replay example_format (snd (example_session False ''none'' 8 []))
               (map Label (2 # 3 # 4 # [])) = Some (True, w)
            \<and> map label (resume_points w) = 2 # 3 # 4 # []
            \<and> resume_point_max (header w) = 4
            \<and> resume_point_count (header w) = 3
            \<and> outcomes (fd w) = []
            \<and> unat (header_size (header w)) = sizeof_CowHeaderV3 example_format"
    by (simp add: example_defs label_defs)
  then obtain w where ex:
    "replay example_format (snd (example_session False ''none'' 8 []))
       (map Label (2 # 3 # 4 # [])) = Some (True, w)
     \<and> map label (resume_points w) = 2 # 3 # 4 # []
     \<and> resume_point_max (header w) = 4
     \<and> resume_point_count (header w) = 3
     \<and> outcomes (fd w) = []
     \<and> unat (header_size (header w)) = sizeof_CowHeaderV3 example_format" ..
  note w = ex[THEN conjunct1] ex[THEN conjunct2, THEN conjunct1]
    ex[THEN conjunct2, THEN conjunct2, THEN conjunct1]
    ex[THEN conjunct2, THEN conjunct2, THEN conjunct2, THEN conjunct1]
    ex[THEN conjunct2, THEN conjunct2, THEN conjunct2, THEN conjunct2, THEN conjunct1]
    ex[THEN conjunct2, THEN conjunct2, THEN conjunct2, THEN conjunct2, THEN conjunct2]
  obtain w1 where w1: "EmitLabel example_format w 3 = Some (True, w1)" "outcomes (fd w1) = []"
    using EmitLabel_succeeds[OF w(5,6)] by blast
  have h1: "unat (header_size (header w1)) = sizeof_CowHeaderV3 example_format"
    using EmitLabel_fields(2)[OF w1(1)] w(6) by simp
  obtain w2 where w2: "EmitLabel example_format w1 3 = Some (True, w2)"
    using EmitLabel_succeeds[OF w1(2) h1] by blast
  note c = EmitLabel_twice_same_vector[OF w1(1) w2]
  have l1: "map label (resume_points w1) = 2 # 3 # []"
  proof -
    from w(2) obtain a b c where abc:
      "resume_points w = [a, b, c]" "label a = 2" "label b = 3" "label c = 4"
      by auto
    show ?thesis using c abc w(3) by simp
  qed
  have n1: "resume_point_count (header w1) = 4"
    using EmitLabel_header_resume_point_count[OF w1(1)] w(4) by simp
  have n2: "resume_point_count (header w2) = 5"
    using EmitLabel_header_resume_point_count[OF w2] n1 by simp
  have len: "length (resume_points w1) = 2"
    using l1 by (metis length_map length_Cons list.size(3) numeral_2_eq_2)
  from w(1) w1(1) w2 l1 c n1 n2 len show ?thesis by (intro exI conjI) (assumption | simp)+
qed

lemma replay_append_True:
  "replay fmt w (xs @ ys) = Some (True, w') \<Longrightarrow>
     \<exists>w1. replay fmt w xs = Some (True, w1) \<and> replay fmt w1 ys = Some (True, w')"
  by (induction xs arbitrary: w) (auto split: option.splits prod.splits bool.splits)

lemma replay_labels_increasing:
  assumes "sorted_wrt (<) ls"
    and "\<forall>p\<in>set (resume_points w). \<forall>l\<in>set ls. label p < l"
    and "length (resume_points w) \<le> unat (resume_point_max (header w))"
    and "replay fmt w (map Label ls) = Some (True, w')"
  shows "resume_points w' =
           drop (length (resume_points w) + length ls - unat (resume_point_max (header w)))
             (resume_points w @ map (\<lambda>l. \<lparr>label = l, op_index = op_count (header w)\<rparr>) ls)
         \<and> resume_point_max (header w') = resume_point_max (header w)
         \<and> op_count (header w') = op_count (header w)"
  using assms
proof (induction ls arbitrary: w)
  case Nil
  then show ?case by simp
next
  case (Cons l ls)
  let ?m = "unat (resume_point_max (header w))"
  let ?p = "\<lparr>label = l, op_index = op_count (header w)\<rparr>"
  from Cons.prems(4) obtain w1 where
    e: "EmitLabel fmt w l = Some (True, w1)" and r: "replay fmt w1 (map Label ls) = Some (True, w')"
    by (auto split: option.splits prod.splits bool.splits)
  have all: "filter (\<lambda>p. label p < l) (resume_points w) = resume_points w"
    using Cons.prems(2) by (simp add: filter_id_conv)
  have r1: "resume_points w1 = drop (length (resume_points w) + 1 - ?m) (resume_points w @ [?p])"
    using EmitLabel_resume_points[OF e] all by simp
  have h1: "header w1 = (header w)\<lparr>resume_point_count := resume_point_count (header w) + 1\<rparr>"
    by (rule EmitLabel_fields(2)[OF e])
  have len1: "length (resume_points w1) \<le> unat (resume_point_max (header w1))"
    using r1 h1 by simp
  have lab1: "\<forall>p\<in>set (resume_points w1). \<forall>l'\<in>set ls. label p < l'"
  proof (intro ballI)
    fix p l' assume p: "p \<in> set (resume_points w1)" and l': "l' \<in> set ls"
    from p r1 have "p \<in> set (resume_points w @ [?p])" by (metis in_set_dropD)
    then show "label p < l'" using Cons.prems(1,2) l' by auto
  qed
  have srt: "sorted_wrt (<) ls" using Cons.prems(1) by simp
  from Cons.IH[OF srt lab1 len1 r]
  have ih: "resume_points w' =
      drop (length (resume_points w1) + length ls - ?m)
        (resume_points w1 @ map (\<lambda>l. \<lparr>label = l, op_index = op_count (header w)\<rparr>) ls)"
    and mx: "resume_point_max (header w') = resume_point_max (header w)"
    and oc: "op_count (header w') = op_count (header w)"
    using h1 by simp_all
  have "resume_points w' =
      drop (length (resume_points w) + length (l # ls) - ?m)
        (resume_points w @ map (\<lambda>l. \<lparr>label = l, op_index = op_count (header w)\<rparr>) (l # ls))"
  proof (cases "length (resume_points w) + 1 \<le> ?m")
    case True
    then show ?thesis using ih r1 by simp
  next
    case False
    then have eq: "length (resume_points w) = ?m" using Cons.prems(3) by simp
    show ?thesis using ih r1 eq by (simp add: drop_Cons')
  qed
  then show ?case using mx oc by simp
qed

text \<open>
  The vector of resume points under a sequence of \<^verbatim>\<open>EmitLabel\<close> calls with strictly
  increasing labels, all greater than the labels already in it: after each of the calls (the
  first \<open>k\<close> of them, for every \<open>k\<close>) the vector holds at most \<open>resume_point_max\<close> entries,
  and it is the old vector followed by the \<open>k\<close> new pairs with the entries in excess of
  \<open>resume_point_max\<close> dropped from the front: the oldest go first.
\<close>

lemma EmitLabel_sequence_vector_bounded:
  assumes "sorted_wrt (<) ls"
    and "\<forall>p\<in>set (resume_points w). \<forall>l\<in>set ls. label p < l"
    and "length (resume_points w) \<le> unat (resume_point_max (header w))"
    and "replay fmt w (map Label ls) = Some (True, w')"
    and "k \<le> length ls"
  shows "\<exists>wk. replay fmt w (map Label (take k ls)) = Some (True, wk)
           \<and> resume_point_max (header wk) = resume_point_max (header w)
           \<and> length (resume_points wk) \<le> unat (resume_point_max (header w))
           \<and> resume_points wk =
               drop (length (resume_points w) + k - unat (resume_point_max (header w)))
                 (resume_points w
                    @ map (\<lambda>l. \<lparr>label = l, op_index = op_count (header w)\<rparr>) (take k ls))"
proof -
  have "map Label ls = map Label (take k ls) @ map Label (drop k ls)"
    by (simp flip: map_append)
  with assms(4) obtain wk where rk: "replay fmt w (map Label (take k ls)) = Some (True, wk)"
    using replay_append_True by metis
  have s: "sorted_wrt (<) (take k ls)" using assms(1) by (rule sorted_wrt_take)
  have l: "\<forall>p\<in>set (resume_points w). \<forall>l\<in>set (take k ls). label p < l"
    using assms(2) by (meson in_set_takeD)
  from replay_labels_increasing[OF s l assms(3) rk] assms(5)
  show ?thesis using rk by (simp add: min_def)
qed

text \<open>
  Claim C5. The claim says that the resume-point count never exceeds \<open>resume_point_max\<close>
  and that the oldest resume point is evicted first. The vector does both (lemma
  \<open>EmitLabel_sequence_vector_bounded\<close>), but the count that the header carries and that
  \<^verbatim>\<open>Finalize\<close> writes to the file, \<open>resume_point_count\<close>, is incremented at line 328 and
  never lowered when an entry is evicted. Here: a fresh real session, whose
  \<open>resume_point_max\<close> is 4, after the labels 1 to 6: the vector holds the four resume points
  3, 4, 5 and 6, and the header count is 6.
\<close>

theorem EmitLabel_sequence_header_count_exceeds_max:
  "\<exists>w'. replay example_format (snd (example_session False ''none'' 8 []))
           (map Label (1 # 2 # 3 # 4 # 5 # 6 # [])) = Some (True, w')
       \<and> map label (resume_points w') = 3 # 4 # 5 # 6 # []
       \<and> resume_point_max (header w') = 4
       \<and> resume_point_count (header w') = 6
       \<and> \<not> resume_point_count (header w') \<le> resume_point_max (header w')"
  by (simp add: example_defs label_defs)

subsection \<open>Sequence data\<close>

lemma EmitSequenceData_failed_write:
  assumes "outcomes (fd w) = False # rest"
  shows "EmitSequenceData fmt w data =
           (False, w\<lparr>header := (header w)\<lparr>sequence_data_count := of_nat (length data)\<rparr>,
                     fd := (fd w)\<lparr>outcomes := rest\<rparr>\<rparr>)"
  using assms by (simp add: EmitSequenceData_def Let_def fd_request_def request_def)

text \<open>
  Claim C8. The claim says that a failed \<^verbatim>\<open>EmitSequenceData\<close> leaves the session state, the
  header's \<open>sequence_data_count\<close> included, as it was. The code assigns
  \<^verbatim>\<open>header_.sequence_data_count = num_ops\<close> before the positioned write and does not restore
  it when the write fails (lemma \<open>EmitSequenceData_failed_write\<close>). Here: a fresh real
  session, whose count is 0, on a file whose next request fails; the call with two values
  returns false and leaves the count at 2.
\<close>

theorem EmitSequenceData_failed_write_changes_count:
  "sequence_data_count
     (header (snd (example_session False ''none'' 8 (True # True # True # False # [])))) = 0
   \<and> fst (EmitSequenceData example_format
            (snd (example_session False ''none'' 8 (True # True # True # False # [])))
            (7 # 9 # [])) = False
   \<and> sequence_data_count
       (header (snd (EmitSequenceData example_format
          (snd (example_session False ''none'' 8 (True # True # True # False # [])))
          (7 # 9 # [])))) = 2"
  by (simp add: example_defs EmitSequenceData_def)

subsection \<open>Resuming a session\<close>

lemma fold_data_length:
  "next_data_pos (fold (\<lambda>op w'. w'\<lparr>next_data_pos := next_data_pos w' + data_length op\<rparr>) ops w)
     = next_data_pos w + sum_list (map data_length ops)"
  by (induction ops arbitrary: w) (simp_all add: add.assoc)

lemma fold_data_length_others:
  "header (fold (\<lambda>op w'. w'\<lparr>next_data_pos := next_data_pos w' + data_length op\<rparr>) ops w) = header w
   \<and> resume_points (fold (\<lambda>op w'. w'\<lparr>next_data_pos := next_data_pos w' + data_length op\<rparr>) ops w)
       = resume_points w"
  by (induction ops arbitrary: w) simp_all

text \<open>
  Claim C6. When \<^verbatim>\<open>ReadCowHeader\<close> gives the header \<open>h\<close> of the file and the parser succeeds
  at the label, \<^verbatim>\<open>OpenForAppend\<close> returns true; the payload cursor (what \<^verbatim>\<open>GetCowSize\<close>
  returns) is \<^verbatim>\<open>GetDataOffset\<close> of \<open>h\<close> plus the sum of the \<open>data_length\<close> of the recovered
  operations (the ones \<^verbatim>\<open>Translate\<close> gives, in 64-bit arithmetic), the committed operation
  count is the number of recovered operations, and the resume points are the parser's.
\<close>

theorem OpenForAppend_reconstructs_cursor:
  assumes "ReadCowHeader ext = Some h" and "Parse ext h l = Some parser"
  shows "\<exists>w'. OpenForAppend ext fmt w l = (True, w')
           \<and> next_data_pos w' = GetDataOffset fmt h + sum_list (map data_length (Translate parser))
           \<and> GetCowSize w' = next_data_pos w'
           \<and> op_count (header w') = of_nat (length (Translate parser))
           \<and> header w' = h\<lparr>op_count := of_nat (length (Translate parser))\<rparr>
           \<and> resume_points w' = parser_resume_points parser"
  using assms
  by (simp add: OpenForAppend_def Let_def fold_data_length fold_data_length_others GetCowSize_def)

theorem OpenForAppend_reconstructs_cursor_witness:
  "\<exists>w'. OpenForAppend example_resume_externals example_format
           (CowWriterV3_new example_format (example_options ''none'' 0)
              \<lparr>completed = [], outcomes = []\<rparr>) 1
         = (True, w')
       \<and> next_data_pos w' = 270 + (4 + 4)
       \<and> op_count (header w') = 2
       \<and> resume_points w' = \<lparr>label = 1, op_index = 2\<rparr> # []"
  using OpenForAppend_reconstructs_cursor
    [of example_resume_externals "header (snd (example_session False ''none'' 8 []))" 1
        "\<lparr>parser_resume_points = \<lparr>label = 1, op_index = 2\<rparr> # [],
          Translate =
            \<lparr>op_type = kCowReplaceOp, new_block = 0, source = 270, data_length = 4\<rparr>
            # \<lparr>op_type = kCowReplaceOp, new_block = 1, source = 274, data_length = 4\<rparr> # []\<rparr>"
        example_format
        "CowWriterV3_new example_format (example_options ''none'' 0)
           \<lparr>completed = [], outcomes = []\<rparr>"]
  by (simp add: example_resume_externals_def example_defs OpenForAppend_def)

subsection \<open>The emitter\<close>

lemma logged_ops_append: "logged_ops (xs @ ys) = logged_ops xs @ logged_ops ys"
  by (induction xs rule: logged_ops.induct) simp_all

lemma logged_data_append: "logged_data (xs @ ys) = logged_data xs @ logged_data ys"
  by (induction xs rule: logged_data.induct) simp_all

lemma WriteOperation_fields:
  assumes "WriteOperation fmt w ops data = (ok, w')"
  shows "estimating w' = estimating w \<and> compression_cfg w' = compression_cfg w
         \<and> compressor w' = compressor w \<and> options w' = options w
         \<and> num_compress_threads w' = num_compress_threads w
         \<and> resume_points w' = resume_points w
         \<and> header w' = (header w)\<lparr>op_count := op_count (header w'),
                                   op_count_max := op_count_max (header w')\<rparr>"
  using assms
  by (auto simp: WriteOperation_def Let_def IsEstimating_def
           split: if_splits prod.splits bool.splits dest!: fd_request_fields)

lemma WriteOperation_False:
  assumes "WriteOperation fmt w ops data = (False, w')"
  shows "header w' = header w \<and> next_data_pos w' = next_data_pos w \<and> \<not> estimating w"
  using assms
  by (auto simp: WriteOperation_def Let_def IsEstimating_def
           split: if_splits prod.splits bool.splits dest!: fd_request_fields)


lemma WriteOperation_real_True:
  assumes "WriteOperation fmt w ops data = (True, w')" and "\<not> estimating w"
  shows "op_count_max (header w') = op_count_max (header w)
         \<and> logged_ops (completed (fd w')) = logged_ops (completed (fd w)) @ ops
         \<and> logged_data (completed (fd w')) = logged_data (completed (fd w)) @ data"
  using assms
  by (auto simp: WriteOperation_def Let_def IsEstimating_def fd_request_def request_def
                 logged_ops_append logged_data_append
           split: if_splits prod.splits bool.splits list.splits)

subsection \<open>Blocks\<close>

lemma WriteOperation_block_size:
  assumes "WriteOperation fmt w ops data = (ok, w')"
  shows "block_size (header w') = block_size (header w)"
proof -
  from WriteOperation_fields[OF assms]
  have "header w' = (header w)\<lparr>op_count := op_count (header w'),
                                op_count_max := op_count_max (header w')\<rparr>" by simp
  then have "block_size (header w') =
      block_size ((header w)\<lparr>op_count := op_count (header w'),
                              op_count_max := op_count_max (header w')\<rparr>)" by simp
  then show ?thesis by simp
qed

lemma EmitBlocks_loop_append:
  "EmitBlocks_loop fmt c nbs data ob off ty sc sp (xs @ ys) w =
     (case EmitBlocks_loop fmt c nbs data ob off ty sc sp xs w of
        (False, w1) \<Rightarrow> (False, w1)
      | (True, w1) \<Rightarrow> EmitBlocks_loop fmt c nbs data ob off ty sc sp ys w1)"
  by (induction xs arbitrary: w) (auto split: prod.splits bool.splits)

lemma EmitBlocks_loop_False:
  "EmitBlocks_loop fmt c nbs data ob off ty sc sp idxs w = (False, w') \<Longrightarrow>
     op_count (header w') = sc \<and> next_data_pos w' = sp"
  by (induction idxs arbitrary: w) (auto split: prod.splits bool.splits)


lemma EmitBlocks_compressed_False:
  assumes "algorithm (compression_cfg w) \<noteq> kCowCompressNone"
    and "EmitBlocks fmt w nbs data ob off ty = Some (False, w')"
  shows "op_count (header w') = op_count (header w) \<and> next_data_pos w' = next_data_pos w"
  using assms
  by (auto simp: EmitBlocks_def Let_def split: if_splits option.splits dest: EmitBlocks_loop_False)

lemmas emit_defs = EmitBlocks_def EmitRawBlocks_def EmitXorBlocks_def WriteOperation_def
  compressed_block_def uncompressed_op_def example_compress_def writer_of_def upt_conv_Cons

text \<open>
  Claim C3. On the compressed path (a compression algorithm other than none, with its
  compressor), take a batch of \<open>n\<close> blocks, where \<open>n\<close> is the size divided by the block
  size, and a block \<open>k < n\<close>: when the loop has written the blocks before \<open>k\<close> and
  \<^verbatim>\<open>WriteOperation\<close> fails for block \<open>k\<close>, \<^verbatim>\<open>EmitBlocks\<close> returns false, and the committed
  operation count and the payload cursor are the ones at the entry to the call.
  \<^verbatim>\<open>EmitRawBlocks\<close> and \<^verbatim>\<open>EmitXorBlocks\<close> are \<^verbatim>\<open>EmitBlocks\<close> with the type replace and xor.
  (Lemma \<open>EmitBlocks_compressed_False\<close>: the same two counters are restored whenever the
  call returns false on this path.)
\<close>

theorem EmitBlocks_failed_block_rolls_back:
  assumes "algorithm (compression_cfg w) \<noteq> kCowCompressNone"
    and "compressor w = Some c"
    and "block_size (header w) \<noteq> 0"
    and "k < length data div unat (block_size (header w))"
    and "EmitBlocks_loop fmt c nbs data ob off ty (op_count (header w)) (next_data_pos w) [0..<k] w
           = (True, wk)"
    and "WriteOperation fmt wk
           [fst (compressed_block c wk nbs data ob off ty k)]
           (snd (compressed_block c wk nbs data ob off ty k)) = (False, wfail)"
  shows "\<exists>w'. EmitBlocks fmt w nbs data ob off ty = Some (False, w')
           \<and> op_count (header w') = op_count (header w)
           \<and> next_data_pos w' = next_data_pos w"
proof -
  let ?n = "length data div unat (block_size (header w))"
  have split: "[0..<?n] = [0..<k] @ k # [Suc k..<?n]"
    using assms(4) by (metis less_imp_le_nat upt_add_eq_append upt_conv_Cons zero_le le_add_diff_inverse plus_nat.add_0)
  obtain op out_data where cb: "compressed_block c wk nbs data ob off ty k = (op, out_data)"
    by (cases "compressed_block c wk nbs data ob off ty k")
  with assms(6) have wo: "WriteOperation fmt wk [op] out_data = (False, wfail)" by simp
  have "fst (EmitBlocks_loop fmt c nbs data ob off ty (op_count (header w)) (next_data_pos w)
          (k # [Suc k..<?n]) wk) = False"
    using cb wo by simp
  then have "fst (EmitBlocks_loop fmt c nbs data ob off ty (op_count (header w)) (next_data_pos w)
          [0..<?n] w) = False"
    unfolding split EmitBlocks_loop_append using assms(5) by simp
  then obtain w' where
    "EmitBlocks_loop fmt c nbs data ob off ty (op_count (header w)) (next_data_pos w) [0..<?n] w
       = (False, w')"
    by (metis prod.collapse)
  then have e: "EmitBlocks fmt w nbs data ob off ty = Some (False, w')"
    using assms(1,2,3) by (simp add: EmitBlocks_def)
  with EmitBlocks_compressed_False[OF assms(1) e] show ?thesis by simp
qed

theorem EmitBlocks_failed_block_rolls_back_witness:
  "\<exists>w'. EmitBlocks example_format
           (snd (example_session False ''lz4'' 8 (True # True # True # True # True # True # False # [])))
           0 (1 # 2 # 3 # 4 # 5 # 6 # 7 # 8 # []) 0 0 kCowReplaceOp = Some (False, w')
       \<and> op_count (header w') = 0
       \<and> next_data_pos w' = 270
       \<and> logged_data (completed (fd w')) = 1 # 2 # 3 # 4 # []"
  using EmitBlocks_failed_block_rolls_back
    [of "snd (example_session False ''lz4'' 8 (True # True # True # True # True # True # False # []))"
        example_compress 1 "1 # 2 # 3 # 4 # 5 # 6 # 7 # 8 # []" example_format 0 0 0 kCowReplaceOp
        "snd (EmitBlocks_loop example_format example_compress 0 (1 # 2 # 3 # 4 # 5 # 6 # 7 # 8 # [])
                0 0 kCowReplaceOp 0 270 (0 # [])
                (snd (example_session False ''lz4'' 8
                        (True # True # True # True # True # True # False # []))))"
        "snd (WriteOperation example_format
               (snd (EmitBlocks_loop example_format example_compress 0
                       (1 # 2 # 3 # 4 # 5 # 6 # 7 # 8 # []) 0 0 kCowReplaceOp 0 270 (0 # [])
                       (snd (example_session False ''lz4'' 8
                               (True # True # True # True # True # True # False # [])))))
               (\<lparr>op_type = kCowReplaceOp, new_block = 1, source = 274, data_length = 4\<rparr> # [])
               (5 # 6 # 7 # 8 # []))"]
  by (simp add: example_defs emit_defs)




lemma unat_ucast_u32: "unat (ucast (x :: u32) :: u64) = unat x"
  by (simp add: unsigned_ucast_eq take_bit_nat_eq_self_iff) (use unsigned_less[of x, where 'a=nat] in simp)

lemma compressed_block_stored:
  assumes "block_size (header w) = b"
  shows "data_length (fst (compressed_block c w nbs data ob off ty i)) =
           (if length (c (take (unat b) (drop (unat b * i) data))) < unat b
            then of_nat (length (c (take (unat b) (drop (unat b * i) data))))
            else ucast b)
         \<and> snd (compressed_block c w nbs data ob off ty i) =
           (if length (c (take (unat b) (drop (unat b * i) data))) < unat b
            then c (take (unat b) (drop (unat b * i) data))
            else take (unat b) (drop (unat b * i) data))"
  using assms by (simp add: compressed_block_def Let_def unat_ucast_u32)

lemma EmitBlocks_loop_log:
  assumes "EmitBlocks_loop fmt c nbs data ob off ty sc sp idxs w = (True, w')"
    and "\<not> estimating w" and "block_size (header w) = b"
  shows "\<exists>ops. logged_ops (completed (fd w')) = logged_ops (completed (fd w)) @ ops
           \<and> map data_length ops =
               map (\<lambda>i. if length (c (take (unat b) (drop (unat b * i) data))) < unat b
                         then of_nat (length (c (take (unat b) (drop (unat b * i) data))))
                         else ucast b) idxs
           \<and> logged_data (completed (fd w')) =
               logged_data (completed (fd w))
               @ concat (map (\<lambda>i. if length (c (take (unat b) (drop (unat b * i) data))) < unat b
                                  then c (take (unat b) (drop (unat b * i) data))
                                  else take (unat b) (drop (unat b * i) data)) idxs)"
  using assms
proof (induction idxs arbitrary: w)
  case Nil
  then show ?case by simp
next
  case (Cons i idxs)
  obtain op out_data where cb: "compressed_block c w nbs data ob off ty i = (op, out_data)"
    by (cases "compressed_block c w nbs data ob off ty i")
  from Cons.prems(1) cb obtain w1 where
    wo: "WriteOperation fmt w [op] out_data = (True, w1)"
    and lp: "EmitBlocks_loop fmt c nbs data ob off ty sc sp idxs w1 = (True, w')"
    by (auto split: prod.splits bool.splits)
  have e1: "\<not> estimating w1" using WriteOperation_fields[OF wo] Cons.prems(2) by simp
  have b1: "block_size (header w1) = b" using WriteOperation_block_size[OF wo] Cons.prems(3) by simp
  from Cons.IH[OF lp e1 b1] obtain ops where ih:
    "logged_ops (completed (fd w')) = logged_ops (completed (fd w1)) @ ops"
    "map data_length ops =
       map (\<lambda>i. if length (c (take (unat b) (drop (unat b * i) data))) < unat b
                 then of_nat (length (c (take (unat b) (drop (unat b * i) data))))
                 else ucast b) idxs"
    "logged_data (completed (fd w')) =
       logged_data (completed (fd w1))
       @ concat (map (\<lambda>i. if length (c (take (unat b) (drop (unat b * i) data))) < unat b
                          then c (take (unat b) (drop (unat b * i) data))
                          else take (unat b) (drop (unat b * i) data)) idxs)"
    by blast
  note st = compressed_block_stored[OF Cons.prems(3), of c nbs data ob off ty i, unfolded cb, simplified]
  note lg = WriteOperation_real_True[OF wo Cons.prems(2)]
  show ?case
    by (rule exI[of _ "op # ops"]) (use ih st lg in simp)
qed

text \<open>
  Claim C7, as amended. With compression enabled, in real mode, a successful
  \<^verbatim>\<open>EmitRawBlocks\<close> or \<^verbatim>\<open>EmitXorBlocks\<close> writes one record per block, each block compressed
  on its own: when the compressed result is strictly shorter than the block size the record's
  \<open>data_length\<close> is the compressed length and the compressed bytes are stored; otherwise
  \<open>data_length\<close> is the block size and the block is stored as it is. The choice is made
  block by block, so one request can mix the two (the instance below does). The claim's
  "if and only if" on the lengths does not hold: see the counterexample that follows.
\<close>

theorem EmitBlocks_compressed_payload_lengths:
  assumes "algorithm (compression_cfg w) \<noteq> kCowCompressNone"
    and "compressor w = Some c"
    and "\<not> IsEstimating w"
    and "EmitRawBlocks fmt w new_block_start data = Some (True, w')
         \<or> EmitXorBlocks fmt w xor_block_start data old_block offset = Some (True, w')"
  shows "\<exists>ops. logged_ops (completed (fd w')) = logged_ops (completed (fd w)) @ ops
           \<and> map data_length ops =
               map (\<lambda>i. if length (c (take (unat (block_size (header w)))
                                          (drop (unat (block_size (header w)) * i) data)))
                            < unat (block_size (header w))
                         then of_nat (length (c (take (unat (block_size (header w)))
                                          (drop (unat (block_size (header w)) * i) data))))
                         else ucast (block_size (header w)))
                   [0..<length data div unat (block_size (header w))]
           \<and> logged_data (completed (fd w')) =
               logged_data (completed (fd w))
               @ concat (map (\<lambda>i. if length (c (take (unat (block_size (header w)))
                                          (drop (unat (block_size (header w)) * i) data)))
                                     < unat (block_size (header w))
                                  then c (take (unat (block_size (header w)))
                                          (drop (unat (block_size (header w)) * i) data))
                                  else take (unat (block_size (header w)))
                                          (drop (unat (block_size (header w)) * i) data))
                          [0..<length data div unat (block_size (header w))])"
proof -
  from assms(4) obtain nbs ob off ty where
    e: "EmitBlocks fmt w nbs data ob off ty = Some (True, w')"
    by (auto simp: EmitRawBlocks_def EmitXorBlocks_def)
  then have lp: "EmitBlocks_loop fmt c nbs data ob off ty (op_count (header w)) (next_data_pos w)
      [0..<length data div unat (block_size (header w))] w = (True, w')"
    using assms(1,2) by (auto simp: EmitBlocks_def Let_def split: if_splits)
  show ?thesis
    by (rule EmitBlocks_loop_log[OF lp _ refl]) (use assms(3) in \<open>simp add: IsEstimating_def\<close>)
qed


theorem EmitBlocks_compressed_payload_lengths_witness:
  "\<exists>w'. EmitRawBlocks example_format (snd (example_session False ''lz4'' 8 [])) 0
           (0 # 0 # 0 # 0 # 5 # 6 # 7 # 8 # []) = Some (True, w')
       \<and> map data_length (logged_ops (completed (fd w'))) = 1 # 4 # []
       \<and> logged_data (completed (fd w')) = 0 # 5 # 6 # 7 # 8 # []"
  using EmitBlocks_compressed_payload_lengths
    [of "snd (example_session False ''lz4'' 8 [])" example_compress example_format 0
        "0 # 0 # 0 # 0 # 5 # 6 # 7 # 8 # []"
        "writer_of (EmitRawBlocks example_format (snd (example_session False ''lz4'' 8 [])) 0
           (0 # 0 # 0 # 0 # 5 # 6 # 7 # 8 # [])) (snd (example_session False ''lz4'' 8 []))"
        0 0 0]
  by (simp add: example_defs emit_defs)

text \<open>
  The claim C7 as stated: the record's payload length equals the compressed length if and
  only if the compressed result is strictly smaller than the block size. Here the compressor
  returns exactly four bytes for a block of four bytes: the comparison
  \<^verbatim>\<open>compressed_data.size() < op.data_length\<close> is false, the block is stored uncompressed with
  \<open>data_length\<close> 4, and that is the compressed length, which is not strictly smaller than
  the block size.
\<close>

theorem EmitBlocks_length_iff_counterexample:
  "map data_length (logged_ops (completed (fd (writer_of
       (EmitRawBlocks example_format (snd (example_session False ''lz4'' 8 [])) 0 (5 # 6 # 7 # 8 # []))
       (snd (example_session False ''lz4'' 8 []))))))
     = of_nat (length (example_compress (5 # 6 # 7 # 8 # []))) # []
   \<and> \<not> length (example_compress (5 # 6 # 7 # 8 # []))
         < unat (block_size (header (snd (example_session False ''lz4'' 8 []))))"
  by (simp add: example_defs emit_defs)

subsection \<open>Estimating, then writing\<close>








































end
